theory Spec2Isabelle
  imports Main "HOL-Library.Word"
begin

section \<open>The document verifier front end (frontend/src/App.js)\<close>

text \<open>
  The component keeps six pieces of React state and has three event handlers:
  \<open>handleFileChange\<close> (hash the selected file in the browser), \<open>handleRegister\<close> and
  \<open>handleVerify\<close> (one POST each to the backend). The handlers are modelled by explicit
  state passing: a handler takes the state of the render in which the event fired and
  what the outside world answers (the file read, the digest primitive, the HTTP reply),
  and returns the state after its last \<open>setState\<close> call together with the effects it
  caused (alerts, requests, console output), in order.

  JavaScript strings are modelled as \<open>string\<close>; the few characters outside ASCII that
  the source's literals contain are written as their UTF-8 bytes. \<open>substring(0, 10)\<close> is
  \<open>take 10\<close>: the source applies it to the digest and to the transaction hash, which are
  ASCII, where bytes and UTF-16 units coincide. A value that may be
  \<open>undefined\<close> is an \<open>option\<close>.
\<close>

subsection \<open>Hexadecimal rendering of the digest (calculateSha256, lines 17-20)\<close>

type_synonym byte = "8 word"

text \<open>\<open>Number.prototype.toString(16)\<close> on a non-negative integer: lower-case digits, no
  leading zeros, \<open>"0"\<close> for zero.\<close>

definition hexDigit :: "nat \<Rightarrow> char" where
  "hexDigit d = ''0123456789abcdef'' ! d"

fun toString16 :: "nat \<Rightarrow> string" where
  "toString16 n =
     (if n < 16 then [hexDigit n] else toString16 (n div 16) @ [hexDigit (n mod 16)])"

declare toString16.simps [simp del]

text \<open>\<open>String.prototype.padStart(targetLength, padString)\<close>: the string itself when it is
  long enough or the pad string is empty, otherwise the pad string repeated and cut to
  fill the missing length, then the string.\<close>

definition padStart :: "nat \<Rightarrow> string \<Rightarrow> string \<Rightarrow> string" where
  "padStart targetLength padString s =
     (if targetLength \<le> length s \<or> padString = [] then s
      else take (targetLength - length s)
             (concat (replicate (targetLength - length s) padString)) @ s)"

text \<open>Line 19: \<open>hashArray.map(b => b.toString(16).padStart(2, '0')).join('')\<close>.\<close>

definition byteHex :: "byte \<Rightarrow> string" where
  "byteHex b = padStart 2 ''0'' (toString16 (unat b))"

definition hashHex :: "byte list \<Rightarrow> string" where
  "hashHex hashArray = concat (map byteHex hashArray)"

subsection \<open>Values the handlers receive\<close>

text \<open>A thrown or rejected value, as far as the handlers read it: \<open>error.message\<close> and
  \<open>error.response?.data?.message\<close>. Each of \<open>response\<close>, \<open>data\<close> and \<open>message\<close> may be
  missing.\<close>

datatype http_error_body = ErrorBody (body_message: "string option")

datatype http_error_response = ErrorResponse (error_data: "http_error_body option")

datatype js_error = JsError (err_response: "http_error_response option") (err_message: "string option")

text \<open>The \<open>File\<close> the browser hands over: the three descriptive properties the source
  reads, and its content.\<close>

record File =
  file_name :: string
  file_size :: nat
  file_type :: string
  file_bytes :: "byte list"

subsection \<open>calculateSha256 (lines 8-28)\<close>

text \<open>
  The two browser services the function calls are parameters: \<open>readError\<close> says whether
  \<open>FileReader.readAsArrayBuffer\<close> fails on a file (\<open>onerror\<close> fires with that value) or
  loads it (\<open>onload\<close> fires with the file's bytes); \<open>digest\<close> is
  \<open>crypto.subtle.digest('SHA-256', buffer)\<close>, which resolves to the hash bytes or rejects.
  The promise rejects with the read error or with the digest's error, and otherwise
  resolves to the hexadecimal string.
\<close>

definition calculateSha256 ::
  "(File \<Rightarrow> js_error option) \<Rightarrow> (byte list \<Rightarrow> js_error + byte list) \<Rightarrow> File \<Rightarrow> js_error + string" where
  "calculateSha256 readError digest f =
     (case readError f of
        Some e \<Rightarrow> Inl e
      | None \<Rightarrow>
          (case digest (file_bytes f) of
             Inl e \<Rightarrow> Inl e
           | Inr hashBuffer \<Rightarrow> Inr (hashHex hashBuffer)))"

subsection \<open>Backend replies, requests and effects\<close>

text \<open>The body of a 2xx reply (\<open>response.data\<close>) when it is not \<open>null\<close>, as far as the
  component reads it: a field that is absent, \<open>null\<close> or not of the shape the code uses
  reads as \<open>undefined\<close>. A body that is no object at all (a string, a number) has every
  field absent.\<close>

record receipt_data =
  transactionHash :: "string option"

record on_chain_data =
  owner :: "string option"
  txHash :: "string option"
  blockNumber :: "nat option"
  blockTimestamp :: "nat option"

record off_chain_data =
  filename :: "string option"

record response_data =
  resp_status :: "string option"
  receipt :: "receipt_data option"
  onChainData :: "on_chain_data option"
  offChainData :: "off_chain_data option"

text \<open>What \<open>await axios.post(...)\<close> gives: the promise rejects with an error (network
  failure, timeout, non-2xx answer) or resolves to a response. The body of the response
  is \<open>None\<close> when \<open>response.data\<close> is \<open>null\<close> (a 2xx answer whose JSON body is \<open>null\<close>).\<close>

type_synonym reply = "js_error + response_data option"

datatype json = JString string | JNumber nat

type_synonym body = "(string \<times> json) list"

datatype effect = Alert string | Post string body | ConsoleError js_error

definition API_URL :: string where
  "API_URL = ''http://localhost:5000/api/documents''"

subsection \<open>JavaScript operators the handlers use\<close>

text \<open>\<open>${v}\<close> in a template literal, for a string or \<open>undefined\<close>.\<close>

definition interpolate :: "string option \<Rightarrow> string" where
  "interpolate v = (case v of None \<Rightarrow> ''undefined'' | Some s \<Rightarrow> s)"

text \<open>\<open>a || b\<close> on strings: \<open>undefined\<close> and the empty string are falsy.\<close>

definition js_or :: "string option \<Rightarrow> string option \<Rightarrow> string option" where
  "js_or a b = (case a of None \<Rightarrow> b | Some s \<Rightarrow> if s = [] then b else Some s)"

text \<open>\<open>error.response?.data?.message\<close>.\<close>

definition backend_message :: "js_error \<Rightarrow> string option" where
  "backend_message error =
     (case err_response error of
        None \<Rightarrow> None
      | Some r \<Rightarrow> (case error_data r of None \<Rightarrow> None | Some d \<Rightarrow> body_message d))"

text \<open>Lines 89 and 127: \<open>error.response?.data?.message || error.message\<close>.\<close>

definition failure_msg :: "js_error \<Rightarrow> string option" where
  "failure_msg error = js_or (backend_message error) (err_message error)"

text \<open>The \<open>TypeError\<close> of reading a property of \<open>null\<close> or \<open>undefined\<close>. Its message is
  the JavaScript engine's, so it is a parameter: \<open>tmsg v p\<close> is the message for a failed
  read of property \<open>p\<close> of \<open>v\<close>, where \<open>v\<close> is \<open>null\<close> or \<open>undefined\<close>. The error has no
  \<open>response\<close>.\<close>

definition TypeError :: "(string \<Rightarrow> string \<Rightarrow> string) \<Rightarrow> string \<Rightarrow> string \<Rightarrow> js_error" where
  "TypeError tmsg v p = JsError None (Some (tmsg v p))"

subsection \<open>The component's state (lines 31-36)\<close>

record app_state =
  "file" :: "File option"
  docHash :: string
  status :: string
  result :: "response_data option"
  loading :: bool
  errorMessage :: "string option"

definition initial_state :: app_state where
  "initial_state =
     \<lparr>file = None, docHash = [], status = ''Select a file to begin...'', result = None,
      loading = False, errorMessage = Some []\<rparr>"

subsection \<open>handleFileChange (lines 38-62)\<close>

text \<open>Lines 41-45, before the \<open>await\<close>.\<close>

definition handleFileChange_begin :: "File \<Rightarrow> app_state \<Rightarrow> app_state" where
  "handleFileChange_begin selectedFile s =
     s\<lparr>file := Some selectedFile,
       result := None,
       errorMessage := Some [],
       status := ''Calculating SHA-256 for: '' @ file_name selectedFile @ ''...'',
       loading := True\<rparr>"

text \<open>Lines 47-56, once the promise of \<open>calculateSha256\<close> has settled: the \<open>try\<close> body
  on a hash, the \<open>catch\<close> body on an error, and the \<open>finally\<close> block after either.\<close>

definition handleFileChange_settle :: "js_error + string \<Rightarrow> app_state \<Rightarrow> app_state" where
  "handleFileChange_settle outcome s =
     (case outcome of
        Inr hash \<Rightarrow> s\<lparr>docHash := hash, status := ''Hash calculated: '' @ take 10 hash @ ''...''\<rparr>
      | Inl error \<Rightarrow> s\<lparr>status := ''Error calculating hash.'', errorMessage := err_message error\<rparr>)
     \<lparr>loading := False\<rparr>"

text \<open>Lines 58-60, the branch taken when the event delivers no file.\<close>

definition handleFileChange_none :: "app_state \<Rightarrow> app_state" where
  "handleFileChange_none s =
     s\<lparr>file := None, docHash := [], status := ''Select a file to begin...''\<rparr>"

text \<open>The handler: \<open>selected\<close> is \<open>e.target.files[0]\<close>, \<open>None\<close> when the event delivers no
  file.\<close>

definition handleFileChange ::
  "(File \<Rightarrow> js_error option) \<Rightarrow> (byte list \<Rightarrow> js_error + byte list) \<Rightarrow> File option \<Rightarrow> app_state \<Rightarrow> app_state" where
  "handleFileChange readError digest selected s =
     (case selected of
        Some selectedFile \<Rightarrow>
          handleFileChange_settle (calculateSha256 readError digest selectedFile)
            (handleFileChange_begin selectedFile s)
      | None \<Rightarrow> handleFileChange_none s)"

subsection \<open>handleRegister (lines 65-96)\<close>

definition not_ready_alert :: effect where
  "not_ready_alert = Alert ''Please select a file and compute the hash first.''"

text \<open>Lines 71-74.\<close>

definition handleRegister_begin :: "app_state \<Rightarrow> app_state" where
  "handleRegister_begin s =
     s\<lparr>loading := True, result := None, errorMessage := Some [],
       status := ''Attempting to register on-chain...''\<rparr>"

text \<open>Lines 76-82.\<close>

definition register_payload :: "string \<Rightarrow> File \<Rightarrow> body" where
  "register_payload h f =
     [(''docHash'', JString h),
      (''filename'', JString (file_name f)),
      (''filesize'', JNumber (file_size f)),
      (''mimeType'', JString (file_type f)),
      (''uploader'', JString ''ClientDemoUser'')]"

text \<open>Lines 85-87, the \<open>try\<close> body after the \<open>await\<close>. Evaluating
  \<open>response.data.receipt.transactionHash.substring(0, 10)\<close> throws a \<open>TypeError\<close> when
  the body is \<open>null\<close>, or the receipt or its transaction hash is missing, before either
  setter is called. The status text starts with U+2705.\<close>

definition register_try ::
  "(string \<Rightarrow> string \<Rightarrow> string) \<Rightarrow> reply \<Rightarrow> app_state \<Rightarrow> js_error + app_state" where
  "register_try tmsg rep s =
     (case rep of
        Inl error \<Rightarrow> Inl error
      | Inr None \<Rightarrow> Inl (TypeError tmsg ''null'' ''receipt'')
      | Inr (Some data) \<Rightarrow>
          (case receipt data of
             None \<Rightarrow> Inl (TypeError tmsg ''undefined'' ''transactionHash'')
           | Some r \<Rightarrow>
               (case transactionHash r of
                  None \<Rightarrow> Inl (TypeError tmsg ''undefined'' ''substring'')
                | Some tx \<Rightarrow>
                    Inr (s\<lparr>status := [CHR 0xE2, CHR 0x9C, CHR 0x85] @ '' Registered! TX: ''
                                        @ take 10 tx @ ''...'',
                            result := Some data\<rparr>))))"

text \<open>Lines 89-92, the \<open>catch\<close> body.\<close>

definition register_catch :: "js_error \<Rightarrow> app_state \<Rightarrow> app_state \<times> effect list" where
  "register_catch error s =
     (s\<lparr>errorMessage := Some (''Registration Failed: '' @ interpolate (failure_msg error)),
        status := ''Registration failed.''\<rparr>,
      [ConsoleError error])"

text \<open>Lines 84-95: \<open>try\<close>, \<open>catch\<close>, and \<open>finally\<close> with \<open>setLoading(false)\<close>.\<close>

definition handleRegister_settle ::
  "(string \<Rightarrow> string \<Rightarrow> string) \<Rightarrow> reply \<Rightarrow> app_state \<Rightarrow> app_state \<times> effect list" where
  "handleRegister_settle tmsg rep s =
     (case (case register_try tmsg rep s of
              Inr s' \<Rightarrow> (s', [])
            | Inl error \<Rightarrow> register_catch error s) of
        (s'', effs) \<Rightarrow> (s''\<lparr>loading := False\<rparr>, effs))"

text \<open>The handler. The guard of line 66, \<open>!docHash || !file\<close>, alerts and returns; past it
  the request is sent with the digest and file of the render the handler belongs to.\<close>

definition handleRegister ::
  "(string \<Rightarrow> string \<Rightarrow> string) \<Rightarrow> reply \<Rightarrow> app_state \<Rightarrow> app_state \<times> effect list" where
  "handleRegister tmsg rep s =
     (if docHash s = [] then (s, [not_ready_alert])
      else
        (case file s of
           None \<Rightarrow> (s, [not_ready_alert])
         | Some f \<Rightarrow>
             (case handleRegister_settle tmsg rep (handleRegister_begin s) of
                (s', effs) \<Rightarrow>
                  (s', Post (API_URL @ ''/register'') (register_payload (docHash s) f) # effs))))"

subsection \<open>handleVerify (lines 99-134)\<close>

text \<open>Lines 105-108.\<close>

definition handleVerify_begin :: "app_state \<Rightarrow> app_state" where
  "handleVerify_begin s =
     s\<lparr>loading := True, result := None, errorMessage := Some [],
       status := ''Checking integrity against on-chain record...''\<rparr>"

text \<open>The three status texts of lines 116, 118 and 120. They start with U+2705, with
  U+26A0 U+FE0F and with U+274C.\<close>

definition VERIFIED_text :: string where
  "VERIFIED_text = [CHR 0xE2, CHR 0x9C, CHR 0x85]
     @ '' Integrity **VERIFIED**. Document is original and registered on-chain.''"

definition ON_CHAIN_ONLY_text :: string where
  "ON_CHAIN_ONLY_text = [CHR 0xE2, CHR 0x9A, CHR 0xA0, CHR 0xEF, CHR 0xB8, CHR 0x8F]
     @ '' Hash found on-chain, but off-chain metadata is missing. Integrity check **OK**.''"

definition NOT_FOUND_text :: string where
  "NOT_FOUND_text = [CHR 0xE2, CHR 0x9D, CHR 0x8C]
     @ '' Not found on-chain. Document is UNREGISTERED or TAMPERED.''"

text \<open>Lines 114-121.\<close>

definition newStatus :: "response_data \<Rightarrow> string" where
  "newStatus data =
     (if resp_status data = Some ''VERIFIED_OK'' then VERIFIED_text
      else if resp_status data = Some ''VERIFIED_ON_CHAIN_ONLY'' then ON_CHAIN_ONLY_text
      else NOT_FOUND_text)"

definition verify_payload :: "string \<Rightarrow> body" where
  "verify_payload h = [(''docHash'', JString h)]"

text \<open>Lines 111-124, the \<open>try\<close> body after the \<open>await\<close>. Reading \<open>data.status\<close> (line
  115) throws a \<open>TypeError\<close> when the body is \<open>null\<close>, before either setter is called.\<close>

definition verify_try ::
  "(string \<Rightarrow> string \<Rightarrow> string) \<Rightarrow> reply \<Rightarrow> app_state \<Rightarrow> js_error + app_state" where
  "verify_try tmsg rep s =
     (case rep of
        Inl error \<Rightarrow> Inl error
      | Inr None \<Rightarrow> Inl (TypeError tmsg ''null'' ''status'')
      | Inr (Some data) \<Rightarrow> Inr (s\<lparr>status := newStatus data, result := Some data\<rparr>))"

text \<open>Lines 127-130, the \<open>catch\<close> body.\<close>

definition verify_catch :: "js_error \<Rightarrow> app_state \<Rightarrow> app_state \<times> effect list" where
  "verify_catch error s =
     (s\<lparr>errorMessage := Some (''Verification Failed: '' @ interpolate (failure_msg error)),
        status := ''Verification failed.''\<rparr>,
      [ConsoleError error])"

text \<open>Lines 110-133: \<open>try\<close>, \<open>catch\<close>, and \<open>finally\<close> with \<open>setLoading(false)\<close>.\<close>

definition handleVerify_settle ::
  "(string \<Rightarrow> string \<Rightarrow> string) \<Rightarrow> reply \<Rightarrow> app_state \<Rightarrow> app_state \<times> effect list" where
  "handleVerify_settle tmsg rep s =
     (case (case verify_try tmsg rep s of
              Inr s' \<Rightarrow> (s', [])
            | Inl error \<Rightarrow> verify_catch error s) of
        (s'', effs) \<Rightarrow> (s''\<lparr>loading := False\<rparr>, effs))"

text \<open>The handler, with the guard of line 100.\<close>

definition handleVerify ::
  "(string \<Rightarrow> string \<Rightarrow> string) \<Rightarrow> reply \<Rightarrow> app_state \<Rightarrow> app_state \<times> effect list" where
  "handleVerify tmsg rep s =
     (if docHash s = [] then (s, [not_ready_alert])
      else
        (case file s of
           None \<Rightarrow> (s, [not_ready_alert])
         | Some f \<Rightarrow>
             (case handleVerify_settle tmsg rep (handleVerify_begin s) of
                (s', effs) \<Rightarrow> (s', Post (API_URL @ ''/verify'') (verify_payload (docHash s)) # effs))))"

subsection \<open>The presentation surface (lines 150, 161 and 168)\<close>

text \<open>The \<open>disabled\<close> attributes of the file input and of the two buttons. A disabled
  button delivers no click, so a click reaches the handler only when the attribute is
  false.\<close>

definition file_input_disabled :: "app_state \<Rightarrow> bool" where
  "file_input_disabled s = loading s"

definition register_disabled :: "app_state \<Rightarrow> bool" where
  "register_disabled s = (loading s \<or> docHash s = [])"

definition verify_disabled :: "app_state \<Rightarrow> bool" where
  "verify_disabled s = (loading s \<or> docHash s = [])"

subsection \<open>A session driven through the surface\<close>

text \<open>
  The handlers are asynchronous: each runs up to its \<open>await\<close> when its event fires and
  resumes when the awaited promise settles. A session is therefore a sequence of events,
  each handled to completion: the three user events, which reach their handler only when
  the element is not disabled, and the settling of an action in flight, with the outcome
  the outside world chose. The session state is the component's state and the actions
  in flight. An action is put in flight exactly where its handler passes the guard and
  calls \<open>calculateSha256\<close> or \<open>axios.post\<close>.
\<close>

datatype action = Hashing | Registering | Verifying

datatype event =
    FileSelected "File option"
  | RegisterClicked
  | VerifyClicked
  | HashSettled "js_error + string"
  | RegisterSettled reply
  | VerifySettled reply

text \<open>The guard of lines 66 and 100, \<open>!docHash || !file\<close>.\<close>

definition not_ready :: "app_state \<Rightarrow> bool" where
  "not_ready s = (docHash s = [] \<or> file s = None)"

fun dispatch ::
  "(string \<Rightarrow> string \<Rightarrow> string) \<Rightarrow> app_state \<times> action list \<Rightarrow> event \<Rightarrow> app_state \<times> action list" where
  "dispatch tmsg (s, inflight) (FileSelected selected) =
     (if file_input_disabled s then (s, inflight)
      else
        (case selected of
           Some selectedFile \<Rightarrow> (handleFileChange_begin selectedFile s, inflight @ [Hashing])
         | None \<Rightarrow> (handleFileChange_none s, inflight)))"
| "dispatch tmsg (s, inflight) RegisterClicked =
     (if register_disabled s then (s, inflight)
      else if not_ready s then (s, inflight)
      else (handleRegister_begin s, inflight @ [Registering]))"
| "dispatch tmsg (s, inflight) VerifyClicked =
     (if verify_disabled s then (s, inflight)
      else if not_ready s then (s, inflight)
      else (handleVerify_begin s, inflight @ [Verifying]))"
| "dispatch tmsg (s, inflight) (HashSettled outcome) =
     (if Hashing \<in> set inflight
      then (handleFileChange_settle outcome s, remove1 Hashing inflight)
      else (s, inflight))"
| "dispatch tmsg (s, inflight) (RegisterSettled rep) =
     (if Registering \<in> set inflight
      then (fst (handleRegister_settle tmsg rep s), remove1 Registering inflight)
      else (s, inflight))"
| "dispatch tmsg (s, inflight) (VerifySettled rep) =
     (if Verifying \<in> set inflight
      then (fst (handleVerify_settle tmsg rep s), remove1 Verifying inflight)
      else (s, inflight))"

definition session :: "(string \<Rightarrow> string \<Rightarrow> string) \<Rightarrow> event list \<Rightarrow> app_state \<times> action list" where
  "session tmsg events = foldl (dispatch tmsg) (initial_state, []) events"

subsection \<open>Requests among the effects\<close>

fun is_request :: "effect \<Rightarrow> bool" where
  "is_request (Post url b) = True"
| "is_request (Alert a) = False"
| "is_request (ConsoleError e) = False"

definition requests :: "effect list \<Rightarrow> effect list" where
  "requests effs = filter is_request effs"

subsection \<open>Example values\<close>

text \<open>The file of the specification's scenario A: \<open>report.pdf\<close>, 1024 bytes (here all
  zero), and the 32 bytes of its SHA-256 digest.\<close>

definition report_pdf :: File where
  "report_pdf =
     \<lparr>file_name = ''report.pdf'', file_size = 1024, file_type = ''application/pdf'',
      file_bytes = replicate 1024 0\<rparr>"

definition report_digest :: "byte list" where
  "report_digest =
     [0x5f, 0x70, 0xbf, 0x18, 0xa0, 0x86, 0x00, 0x70, 0x16, 0xe9, 0x48, 0xb0, 0x4a, 0xed, 0x3b, 0x82,
      0x10, 0x3a, 0x36, 0xbe, 0xa4, 0x17, 0x55, 0xb6, 0xcd, 0xdf, 0xaf, 0x10, 0xac, 0xe3, 0xc6, 0xef]"

definition d1 :: string where
  "d1 = ''5f70bf18a086007016e948b04aed3b82103a36bea41755b6cddfaf10ace3c6ef''"

text \<open>The state after \<open>report.pdf\<close> has been selected and hashed.\<close>

definition hash_ready :: app_state where
  "hash_ready =
     \<lparr>file = Some report_pdf, docHash = d1, status = ''Hash calculated: 5f70bf18a0...'',
      result = None, loading = False, errorMessage = Some []\<rparr>"

text \<open>A second file, and the value its failing read delivers (an event without a
  message).\<close>

definition notes_txt :: File where
  "notes_txt =
     \<lparr>file_name = ''notes.txt'', file_size = 3, file_type = ''text/plain'',
      file_bytes = [0x61, 0x62, 0x63]\<rparr>"

definition read_failure :: js_error where
  "read_failure = JsError None None"

text \<open>The state after \<open>notes.txt\<close> is then selected and its read fails.\<close>

definition after_failed_hash :: app_state where
  "after_failed_hash =
     handleFileChange (\<lambda>f. Some read_failure) (\<lambda>bs. Inr report_digest) (Some notes_txt) hash_ready"

text \<open>Errors of a rejected request: a network failure without a response, a 500 answer
  with a message, and a 500 answer whose message is the empty string.\<close>

definition network_error :: js_error where
  "network_error = JsError None (Some ''Network Error'')"

definition duplicate_error :: js_error where
  "duplicate_error =
     JsError (Some (ErrorResponse (Some (ErrorBody (Some ''Document already registered'')))))
       (Some ''Request failed with status code 500'')"

definition empty_message_error :: js_error where
  "empty_message_error =
     JsError (Some (ErrorResponse (Some (ErrorBody (Some [])))))
       (Some ''Request failed with status code 500'')"

text \<open>Bodies of 2xx answers.\<close>

definition verified_ok_body :: response_data where
  "verified_ok_body =
     \<lparr>resp_status = Some ''VERIFIED_OK'', receipt = None,
      onChainData = Some \<lparr>owner = Some ''0xabc'', txHash = None, blockNumber = Some 7,
                            blockTimestamp = None\<rparr>,
      offChainData = Some \<lparr>filename = Some ''report.pdf''\<rparr>\<rparr>"

definition receipt_body :: response_data where
  "receipt_body =
     \<lparr>resp_status = None, receipt = Some \<lparr>transactionHash = Some ''0xabcdef0123456789''\<rparr>,
      onChainData = None, offChainData = None\<rparr>"

text \<open>The wording of one engine: \<open>Cannot read properties of null (reading 'status')\<close>.\<close>

definition engine_message :: "string \<Rightarrow> string \<Rightarrow> string" where
  "engine_message v p =
     ''Cannot read properties of '' @ v @ '' (reading '' @ [CHR 0x27] @ p @ [CHR 0x27] @ '')''"

section \<open>Properties\<close>

subsection \<open>Hexadecimal rendering\<close>

lemma hexDigit_lower_hex: "d < 16 \<Longrightarrow> hexDigit d \<in> set ''0123456789abcdef''"
  unfolding hexDigit_def by (rule nth_mem) simp

lemma toString16_short: "n < 16 \<Longrightarrow> toString16 n = [hexDigit n]"
  by (simp add: toString16.simps)

lemma toString16_two: "16 \<le> n \<Longrightarrow> n < 256 \<Longrightarrow> toString16 n = [hexDigit (n div 16), hexDigit (n mod 16)]"
proof -
  assume lo: "16 \<le> n" and hi: "n < 256"
  from hi have "n div 16 < 16" by simp
  then have "toString16 (n div 16) = [hexDigit (n div 16)]" by (rule toString16_short)
  with lo show ?thesis by (subst toString16.simps) simp
qed

lemma byteHex_eq: "byteHex b = [hexDigit (unat b div 16), hexDigit (unat b mod 16)]"
proof (cases "unat b < 16")
  case True
  then have "toString16 (unat b) = [hexDigit (unat b)]" by (rule toString16_short)
  moreover from True have "unat b div 16 = 0" "unat b mod 16 = unat b" by simp_all
  moreover have "hexDigit 0 = CHR ''0''" by (simp add: hexDigit_def)
  ultimately show ?thesis by (simp add: byteHex_def padStart_def)
next
  case False
  have "unat b < 2 ^ LENGTH(8)" by (rule unsigned_less)
  then have "unat b < 256" by simp
  with False have "toString16 (unat b) = [hexDigit (unat b div 16), hexDigit (unat b mod 16)]"
    by (intro toString16_two) simp_all
  then show ?thesis by (simp add: byteHex_def padStart_def)
qed

lemma byteHex_length: "length (byteHex b) = 2"
  by (simp add: byteHex_eq)

lemma byteHex_lower_hex: "set (byteHex b) \<subseteq> set ''0123456789abcdef''"
proof -
  have "unat b < 2 ^ LENGTH(8)" by (rule unsigned_less)
  then have "unat b div 16 < 16" by simp
  then have "hexDigit (unat b div 16) \<in> set ''0123456789abcdef''" by (rule hexDigit_lower_hex)
  moreover have "hexDigit (unat b mod 16) \<in> set ''0123456789abcdef''"
    by (rule hexDigit_lower_hex) simp
  ultimately show ?thesis unfolding byteHex_eq by simp
qed

lemma hashHex_length: "length (hashHex hashArray) = 2 * length hashArray"
  by (induction hashArray) (simp_all add: hashHex_def byteHex_length)

lemma hashHex_lower_hex: "set (hashHex hashArray) \<subseteq> set ''0123456789abcdef''"
  unfolding hashHex_def using byteHex_lower_hex by (induction hashArray) auto

text \<open>The rendering of the example digest.\<close>

lemma hashHex_report_digest: "hashHex report_digest = d1"
  by (simp add: hashHex_def byteHex_eq hexDigit_def report_digest_def d1_def)

text \<open>
  C6. When the file loads and the digest primitive delivers the 32 bytes of a 256-bit
  digest, \<open>calculateSha256\<close> resolves, and it resolves to a string of exactly 64
  characters, each one of \<open>0123456789abcdef\<close> (lower case, no separator), which is the
  concatenation of one two-character, zero-padded rendering per digest byte.
\<close>

theorem calculateSha256_hex_64:
  assumes "readError f = None"
    and "digest (file_bytes f) = Inr hashBuffer"
    and "length hashBuffer = 32"
  shows "\<exists>h. calculateSha256 readError digest f = Inr h
           \<and> length h = 64
           \<and> set h \<subseteq> set ''0123456789abcdef''
           \<and> h = concat (map byteHex hashBuffer)
           \<and> list_all (\<lambda>b. length (byteHex b) = 2
                \<and> byteHex b = [hexDigit (unat b div 16), hexDigit (unat b mod 16)]) hashBuffer"
proof -
  have res: "calculateSha256 readError digest f = Inr (hashHex hashBuffer)"
    using assms(1,2) by (simp add: calculateSha256_def)
  have len: "length (hashHex hashBuffer) = 64"
    using assms(3) by (simp add: hashHex_length)
  have each: "list_all (\<lambda>b. length (byteHex b) = 2
                \<and> byteHex b = [hexDigit (unat b div 16), hexDigit (unat b mod 16)]) hashBuffer"
    unfolding list_all_iff using byteHex_length byteHex_eq by blast
  from res len each hashHex_lower_hex [of hashBuffer] show ?thesis
    by (simp add: hashHex_def)
qed

theorem calculateSha256_hex_64_witness:
  "calculateSha256 (\<lambda>f. None) (\<lambda>bs. Inr report_digest) report_pdf = Inr d1 \<and> length d1 = 64
   \<and> set d1 \<subseteq> set ''0123456789abcdef''"
proof -
  have len: "length report_digest = 32" by (simp add: report_digest_def)
  from calculateSha256_hex_64 [of "\<lambda>f. None" report_pdf "\<lambda>bs. Inr report_digest" report_digest]
  obtain h where h: "calculateSha256 (\<lambda>f. None) (\<lambda>bs. Inr report_digest) report_pdf = Inr h"
    "length h = 64" "set h \<subseteq> set ''0123456789abcdef''" "h = concat (map byteHex report_digest)"
    using len by auto
  from h(4) have "h = d1" using hashHex_report_digest by (simp add: hashHex_def)
  with h(1,2,3) show ?thesis by simp
qed

subsection \<open>The handlers past their guard\<close>

text \<open>
  Facts shared by the proofs below: what a run of a handler consists of once the guard
  of lines 66 and 100 is passed, and what the part of a handler after its \<open>await\<close> does
  to the state and to the effects.
\<close>

lemmas register_defs = handleRegister_def handleRegister_settle_def handleRegister_begin_def
  register_try_def register_catch_def

lemmas verify_defs = handleVerify_def handleVerify_settle_def handleVerify_begin_def
  verify_try_def verify_catch_def

lemma hash_ready_ready: "docHash hash_ready \<noteq> [] \<and> file hash_ready = Some report_pdf"
  by (simp add: hash_ready_def d1_def)

lemma handleRegister_ready:
  assumes "docHash s \<noteq> []" and "file s = Some f"
  shows "handleRegister tmsg rep s =
    (fst (handleRegister_settle tmsg rep (handleRegister_begin s)),
     Post (API_URL @ ''/register'') (register_payload (docHash s) f)
       # snd (handleRegister_settle tmsg rep (handleRegister_begin s)))"
  using assms by (simp add: handleRegister_def split: prod.splits)

lemma handleVerify_ready:
  assumes "docHash s \<noteq> []" and "file s = Some f"
  shows "handleVerify tmsg rep s =
    (fst (handleVerify_settle tmsg rep (handleVerify_begin s)),
     Post (API_URL @ ''/verify'') (verify_payload (docHash s))
       # snd (handleVerify_settle tmsg rep (handleVerify_begin s)))"
  using assms by (simp add: handleVerify_def split: prod.splits)

lemma register_settle_effects: "requests (snd (handleRegister_settle tmsg rep s)) = []"
  by (simp add: handleRegister_settle_def register_try_def register_catch_def requests_def
      split: sum.splits option.splits)

lemma verify_settle_effects: "requests (snd (handleVerify_settle tmsg rep s)) = []"
  by (simp add: handleVerify_settle_def verify_try_def verify_catch_def requests_def
      split: sum.splits option.splits)

lemma register_settle_frame:
  "docHash (fst (handleRegister_settle tmsg rep s)) = docHash s
   \<and> file (fst (handleRegister_settle tmsg rep s)) = file s
   \<and> \<not> loading (fst (handleRegister_settle tmsg rep s))"
  by (simp add: handleRegister_settle_def register_try_def register_catch_def
      split: sum.splits option.splits)

lemma verify_settle_frame:
  "docHash (fst (handleVerify_settle tmsg rep s)) = docHash s
   \<and> file (fst (handleVerify_settle tmsg rep s)) = file s
   \<and> \<not> loading (fst (handleVerify_settle tmsg rep s))"
  by (simp add: handleVerify_settle_def verify_try_def verify_catch_def
      split: sum.splits option.splits)

lemma hash_settle_not_loading: "\<not> loading (handleFileChange_settle outcome s)"
  by (simp add: handleFileChange_settle_def)

text \<open>The example state \<open>hash_ready\<close> is the one the component is in after
  \<open>report.pdf\<close> has been selected in the initial state and hashed.\<close>

lemma hash_ready_reached:
  "handleFileChange (\<lambda>f. None) (\<lambda>bs. Inr report_digest) (Some report_pdf) initial_state = hash_ready"
  by (simp add: handleFileChange_def handleFileChange_begin_def handleFileChange_settle_def
      calculateSha256_def hashHex_report_digest initial_state_def hash_ready_def report_pdf_def)
    (simp add: d1_def)

subsection \<open>Verdict classification\<close>

lemma status_texts_distinct:
  "VERIFIED_text \<noteq> ON_CHAIN_ONLY_text \<and> VERIFIED_text \<noteq> NOT_FOUND_text
   \<and> ON_CHAIN_ONLY_text \<noteq> NOT_FOUND_text"
  by (simp add: VERIFIED_text_def ON_CHAIN_ONLY_text_def NOT_FOUND_text_def)

text \<open>
  C1. The specification has every verify response classified by its \<open>status\<close> field,
  every status other than the two verified ones giving the not-found outcome. A 2xx
  response whose body is \<open>null\<close> has no \<open>status\<close> field: reading it (line 115) throws, the
  \<open>catch\<close> block runs, and the action ends failed, with the status line
  \<open>Verification failed.\<close> and no result, not with the not-found text.
\<close>

theorem verify_null_body_fails:
  "status (fst (handleVerify engine_message (Inr None) hash_ready)) = ''Verification failed.''
   \<and> status (fst (handleVerify engine_message (Inr None) hash_ready)) \<noteq> NOT_FOUND_text
   \<and> result (fst (handleVerify engine_message (Inr None) hash_ready)) = None
   \<and> errorMessage (fst (handleVerify engine_message (Inr None) hash_ready)) =
       Some (''Verification Failed: Cannot read properties of null (reading ''
             @ [CHR 0x27] @ ''status'' @ [CHR 0x27] @ '')'')"
  by (simp add: verify_defs hash_ready_def d1_def NOT_FOUND_text_def TypeError_def
      failure_msg_def js_or_def backend_message_def interpolate_def engine_message_def)

text \<open>
  C1, as amended. A verify response whose body is not \<open>null\<close> is classified by its
  \<open>status\<close> field alone: after the action the status line is the VERIFIED text when the
  field is \<open>VERIFIED_OK\<close>, the on-chain-only text when it is \<open>VERIFIED_ON_CHAIN_ONLY\<close>, and
  the not-found text for every other value, also a missing one. Replacing the two facets
  of the answer by any others changes nothing, and the three texts are pairwise
  different. A response whose body is \<open>null\<close> is not classified: the action fails, the
  status line is \<open>Verification failed.\<close>, which is none of the three texts, and no result
  is stored.
\<close>

theorem verify_verdict_follows_status:
  assumes "docHash s \<noteq> []" and "file s = Some f"
  shows "status (fst (handleVerify tmsg (Inr (Some data)) s)) =
           (if resp_status data = Some ''VERIFIED_OK'' then VERIFIED_text
            else if resp_status data = Some ''VERIFIED_ON_CHAIN_ONLY'' then ON_CHAIN_ONLY_text
            else NOT_FOUND_text)
         \<and> result (fst (handleVerify tmsg (Inr (Some data)) s)) = Some data
         \<and> status (fst (handleVerify tmsg (Inr (Some (data\<lparr>onChainData := on, offChainData := off\<rparr>))) s))
             = status (fst (handleVerify tmsg (Inr (Some data)) s))
         \<and> VERIFIED_text \<noteq> ON_CHAIN_ONLY_text \<and> VERIFIED_text \<noteq> NOT_FOUND_text
         \<and> ON_CHAIN_ONLY_text \<noteq> NOT_FOUND_text
         \<and> status (fst (handleVerify tmsg (Inr None) s)) = ''Verification failed.''
         \<and> result (fst (handleVerify tmsg (Inr None) s)) = None
         \<and> ''Verification failed.'' \<noteq> VERIFIED_text
         \<and> ''Verification failed.'' \<noteq> ON_CHAIN_ONLY_text
         \<and> ''Verification failed.'' \<noteq> NOT_FOUND_text"
proof -
  have run: "status (fst (handleVerify tmsg (Inr (Some d)) s)) = newStatus d
             \<and> result (fst (handleVerify tmsg (Inr (Some d)) s)) = Some d" for d
    using assms by (simp add: handleVerify_ready handleVerify_settle_def verify_try_def)
  have facets: "newStatus (data\<lparr>onChainData := on, offChainData := off\<rparr>) = newStatus data"
    by (simp add: newStatus_def)
  have null: "status (fst (handleVerify tmsg (Inr None) s)) = ''Verification failed.''
              \<and> result (fst (handleVerify tmsg (Inr None) s)) = None"
    using assms
    by (simp add: handleVerify_ready handleVerify_settle_def verify_try_def verify_catch_def
        handleVerify_begin_def)
  have failed: "''Verification failed.'' \<noteq> VERIFIED_text
                \<and> ''Verification failed.'' \<noteq> ON_CHAIN_ONLY_text
                \<and> ''Verification failed.'' \<noteq> NOT_FOUND_text"
    by (simp add: VERIFIED_text_def ON_CHAIN_ONLY_text_def NOT_FOUND_text_def)
  have table: "newStatus data =
           (if resp_status data = Some ''VERIFIED_OK'' then VERIFIED_text
            else if resp_status data = Some ''VERIFIED_ON_CHAIN_ONLY'' then ON_CHAIN_ONLY_text
            else NOT_FOUND_text)"
    by (simp add: newStatus_def)
  from run [of data] run [of "data\<lparr>onChainData := on, offChainData := off\<rparr>"] facets null
    failed status_texts_distinct table
  show ?thesis by simp
qed

theorem verify_verdict_follows_status_witness:
  "status (fst (handleVerify engine_message (Inr (Some verified_ok_body)) hash_ready)) = VERIFIED_text
   \<and> status (fst (handleVerify engine_message
        (Inr (Some (verified_ok_body\<lparr>onChainData := None, offChainData := None\<rparr>))) hash_ready))
       = VERIFIED_text
   \<and> status (fst (handleVerify engine_message (Inr None) hash_ready)) = ''Verification failed.''"
proof -
  have ready: "docHash hash_ready \<noteq> []" "file hash_ready = Some report_pdf"
    using hash_ready_ready by simp_all
  have ok: "resp_status verified_ok_body = Some ''VERIFIED_OK''"
    by (simp add: verified_ok_body_def)
  from verify_verdict_follows_status [OF ready, where tmsg = engine_message
      and data = verified_ok_body and on = None and off = None] ok
  show ?thesis by simp
qed

subsection \<open>Selecting a file\<close>

text \<open>
  C2. The specification has a new selection discard the previous digest. The branch for
  a selected file (lines 41-45) resets the result and the error message but never the
  digest, which only a successful hash overwrites; the branch for no file (line 59) does
  reset it. Evaluated: with \<open>report.pdf\<close> hashed to \<open>d1\<close>, selecting \<open>notes.txt\<close> whose read
  fails leaves \<open>notes.txt\<close> as the file and \<open>d1\<close> as the digest, the session is not
  loading, and a register action then sends \<open>d1\<close> under the name of \<open>notes.txt\<close>.
\<close>

theorem failed_hash_keeps_previous_digest:
  "docHash hash_ready = d1
   \<and> file after_failed_hash = Some notes_txt
   \<and> docHash after_failed_hash = d1
   \<and> status after_failed_hash = ''Error calculating hash.''
   \<and> loading after_failed_hash = False
   \<and> requests (snd (handleRegister engine_message (Inr (Some receipt_body)) after_failed_hash)) =
       [Post ''http://localhost:5000/api/documents/register''
          [(''docHash'', JString d1),
           (''filename'', JString ''notes.txt''),
           (''filesize'', JNumber 3),
           (''mimeType'', JString ''text/plain''),
           (''uploader'', JString ''ClientDemoUser'')]]"
proof -
  have st: "after_failed_hash =
          hash_ready\<lparr>file := Some notes_txt, result := None, errorMessage := None,
            status := ''Error calculating hash.'', loading := False\<rparr>"
    by (simp add: after_failed_hash_def handleFileChange_def handleFileChange_begin_def
        handleFileChange_settle_def calculateSha256_def read_failure_def hash_ready_def)
  have ready: "docHash after_failed_hash \<noteq> []" "file after_failed_hash = Some notes_txt"
    by (simp_all add: st hash_ready_def d1_def)
  have req: "requests (snd (handleRegister engine_message (Inr (Some receipt_body)) after_failed_hash)) =
       [Post (API_URL @ ''/register'') (register_payload (docHash after_failed_hash) notes_txt)]"
    using register_settle_effects [of engine_message "Inr (Some receipt_body)" "handleRegister_begin after_failed_hash"]
    by (simp add: handleRegister_ready [OF ready] requests_def)
  have d: "docHash after_failed_hash = d1" by (simp add: st hash_ready_def)
  show ?thesis
    unfolding req d
    by (simp add: st hash_ready_def register_payload_def API_URL_def notes_txt_def)
qed

text \<open>
  C9. A file-selection event that delivers no file sets the file to none, the digest to
  the empty string and the status line to its initial text, and leaves the result, the
  error message and the loading flag as they were.
\<close>

theorem no_file_selected_keeps_result_and_error:
  "file (handleFileChange readError digest None s) = None
   \<and> docHash (handleFileChange readError digest None s) = []
   \<and> status (handleFileChange readError digest None s) = ''Select a file to begin...''
   \<and> result (handleFileChange readError digest None s) = result s
   \<and> errorMessage (handleFileChange readError digest None s) = errorMessage s
   \<and> loading (handleFileChange readError digest None s) = loading s"
  by (simp add: handleFileChange_def handleFileChange_none_def)

subsection \<open>The guard of register and verify\<close>

text \<open>
  C4. In a state without a digest or without a file, \<open>handleRegister\<close> and
  \<open>handleVerify\<close> only raise the alert: the state is unchanged and no request is among
  the effects.
\<close>

theorem not_ready_rejected_without_request:
  assumes "docHash s = [] \<or> file s = None"
  shows "handleRegister tmsg rep s = (s, [not_ready_alert])
         \<and> handleVerify tmsg rep' s = (s, [not_ready_alert])
         \<and> requests (snd (handleRegister tmsg rep s)) = []
         \<and> requests (snd (handleVerify tmsg rep' s)) = []"
proof -
  have r: "handleRegister tmsg rep s = (s, [not_ready_alert])"
    using assms by (auto simp: handleRegister_def)
  have v: "handleVerify tmsg rep' s = (s, [not_ready_alert])"
    using assms by (auto simp: handleVerify_def)
  show ?thesis by (simp add: r v requests_def not_ready_alert_def)
qed

theorem not_ready_rejected_without_request_witness:
  "handleRegister engine_message (Inr (Some receipt_body)) initial_state = (initial_state, [not_ready_alert])
   \<and> handleVerify engine_message (Inr (Some verified_ok_body)) initial_state = (initial_state, [not_ready_alert])
   \<and> requests (snd (handleRegister engine_message (Inr (Some receipt_body)) initial_state)) = []
   \<and> requests (snd (handleVerify engine_message (Inr (Some verified_ok_body)) initial_state)) = []"
proof -
  have idle: "docHash initial_state = [] \<or> file initial_state = None"
    by (simp add: initial_state_def)
  show ?thesis by (rule not_ready_rejected_without_request [OF idle])
qed

text \<open>
  C3. The specification has the controller itself reject register and verify while an
  action is in flight. The handlers test only the digest and the file: in the state
  entered by a register action (loading), with the request still outstanding, invoking
  \<open>handleVerify\<close> or \<open>handleRegister\<close> sends a request.
\<close>

theorem controller_starts_action_while_loading:
  "loading (handleRegister_begin hash_ready)
   \<and> requests (snd (handleVerify engine_message (Inr (Some verified_ok_body)) (handleRegister_begin hash_ready))) =
       [Post ''http://localhost:5000/api/documents/verify'' [(''docHash'', JString d1)]]
   \<and> requests (snd (handleRegister engine_message (Inr (Some receipt_body)) (handleRegister_begin hash_ready))) =
       [Post ''http://localhost:5000/api/documents/register''
          [(''docHash'', JString d1),
           (''filename'', JString ''report.pdf''),
           (''filesize'', JNumber 1024),
           (''mimeType'', JString ''application/pdf''),
           (''uploader'', JString ''ClientDemoUser'')]]"
proof -
  let ?s = "handleRegister_begin hash_ready"
  have ready: "docHash ?s \<noteq> []" "file ?s = Some report_pdf"
    by (simp_all add: handleRegister_begin_def hash_ready_def d1_def)
  have d: "docHash ?s = d1" by (simp add: handleRegister_begin_def hash_ready_def)
  have v: "requests (snd (handleVerify engine_message (Inr (Some verified_ok_body)) ?s)) =
             [Post (API_URL @ ''/verify'') (verify_payload (docHash ?s))]"
    using verify_settle_effects [of engine_message "Inr (Some verified_ok_body)" "handleVerify_begin ?s"]
    by (simp add: handleVerify_ready [OF ready] requests_def)
  have r: "requests (snd (handleRegister engine_message (Inr (Some receipt_body)) ?s)) =
             [Post (API_URL @ ''/register'') (register_payload (docHash ?s) report_pdf)]"
    using register_settle_effects [of engine_message "Inr (Some receipt_body)" "handleRegister_begin ?s"]
    by (simp add: handleRegister_ready [OF ready] requests_def)
  have l: "loading ?s" by (simp add: handleRegister_begin_def)
  show ?thesis
    unfolding v r d using l
    by (simp add: API_URL_def verify_payload_def register_payload_def report_pdf_def)
qed

text \<open>
  The session splits each handler at its \<open>await\<close> and nothing else: an enabled event
  followed at once by the settling of its action leaves the state the handler computes.
\<close>

lemma click_then_settle_is_handleRegister:
  "\<not> register_disabled s \<Longrightarrow>
     dispatch tmsg (dispatch tmsg (s, []) RegisterClicked) (RegisterSettled rep)
       = (fst (handleRegister tmsg rep s), [])"
  by (auto simp: not_ready_def handleRegister_def split: option.splits prod.splits)

lemma click_then_settle_is_handleVerify:
  "\<not> verify_disabled s \<Longrightarrow>
     dispatch tmsg (dispatch tmsg (s, []) VerifyClicked) (VerifySettled rep)
       = (fst (handleVerify tmsg rep s), [])"
  by (auto simp: not_ready_def handleVerify_def split: option.splits prod.splits)

lemma select_then_settle_is_handleFileChange:
  "\<not> file_input_disabled s \<Longrightarrow>
     dispatch tmsg (dispatch tmsg (s, []) (FileSelected (Some f)))
         (HashSettled (calculateSha256 readError digest f))
       = (handleFileChange readError digest (Some f) s, [])"
  by (simp add: handleFileChange_def)

lemma select_none_is_handleFileChange:
  "\<not> file_input_disabled s \<Longrightarrow>
     dispatch tmsg (s, inflight) (FileSelected None)
       = (handleFileChange readError digest None s, inflight)"
  by (simp add: handleFileChange_def)

text \<open>
  What holds is the exclusion through the surface. Every step of a session keeps the
  invariant that either nothing is in flight and the state is not loading, or exactly one
  action is in flight and the state is loading.
\<close>

lemma dispatch_keeps_one_in_flight:
  assumes "(inflight = [] \<and> \<not> loading s) \<or> (\<exists>a. inflight = [a] \<and> loading s)"
    and "dispatch tmsg (s, inflight) ev = (s', inflight')"
  shows "(inflight' = [] \<and> \<not> loading s') \<or> (\<exists>a. inflight' = [a] \<and> loading s')"
proof (cases ev)
  case (FileSelected selected)
  with assms show ?thesis
    by (auto simp: file_input_disabled_def handleFileChange_begin_def handleFileChange_none_def
        split: if_splits option.splits)
next
  case RegisterClicked
  with assms show ?thesis
    by (auto simp: register_disabled_def handleRegister_begin_def split: if_splits)
next
  case VerifyClicked
  with assms show ?thesis
    by (auto simp: verify_disabled_def handleVerify_begin_def split: if_splits)
next
  case (HashSettled outcome)
  with assms show ?thesis
    by (auto simp: hash_settle_not_loading split: if_splits)
next
  case (RegisterSettled rep)
  with assms show ?thesis
    using register_settle_frame [of tmsg rep s] by (auto split: if_splits)
next
  case (VerifySettled rep)
  with assms show ?thesis
    using verify_settle_frame [of tmsg rep s] by (auto split: if_splits)
qed

lemma session_snoc: "session tmsg (events @ [ev]) = dispatch tmsg (session tmsg events) ev"
  by (simp add: session_def)

lemma session_one_in_flight:
  "session tmsg events = (s, inflight) \<Longrightarrow>
     (inflight = [] \<and> \<not> loading s) \<or> (\<exists>a. inflight = [a] \<and> loading s)"
proof (induction events arbitrary: s inflight rule: rev_induct)
  case Nil
  then show ?case by (auto simp: session_def initial_state_def)
next
  case (snoc ev events)
  obtain s0 inflight0 where prev: "session tmsg events = (s0, inflight0)"
    by (cases "session tmsg events")
  from snoc.IH [OF prev]
  have inv: "(inflight0 = [] \<and> \<not> loading s0) \<or> (\<exists>a. inflight0 = [a] \<and> loading s0)" .
  from snoc.prems prev have "dispatch tmsg (s0, inflight0) ev = (s, inflight)"
    by (simp add: session_snoc)
  with inv show ?case by (rule dispatch_keeps_one_in_flight)
qed

text \<open>
  C3, as amended. In every state a session reaches through the surface, at most one
  action is in flight, the state is loading exactly when one is, and while one is in
  flight a click on register or on verify starts nothing: the buttons are disabled, the
  state and the actions in flight stay as they are.
\<close>

theorem surface_one_action_in_flight:
  assumes "session tmsg events = (s, inflight)"
  shows "length inflight \<le> 1
         \<and> loading s = (inflight \<noteq> [])
         \<and> (inflight \<noteq> [] \<longrightarrow>
              dispatch tmsg (s, inflight) RegisterClicked = (s, inflight)
              \<and> dispatch tmsg (s, inflight) VerifyClicked = (s, inflight))"
proof -
  from session_one_in_flight [OF assms]
  have inv: "(inflight = [] \<and> \<not> loading s) \<or> (\<exists>a. inflight = [a] \<and> loading s)" .
  then have "length inflight \<le> 1" and l: "loading s = (inflight \<noteq> [])" by auto
  moreover have "dispatch tmsg (s, inflight) RegisterClicked = (s, inflight)
      \<and> dispatch tmsg (s, inflight) VerifyClicked = (s, inflight)" if "inflight \<noteq> []"
    using that l by (simp add: register_disabled_def verify_disabled_def)
  ultimately show ?thesis by blast
qed

lemma registering_session:
  "session engine_message [FileSelected (Some report_pdf), HashSettled (Inr d1), RegisterClicked]
     = (handleRegister_begin hash_ready, [Registering])"
  by (simp add: session_def initial_state_def file_input_disabled_def register_disabled_def
      not_ready_def handleFileChange_begin_def handleFileChange_settle_def hash_ready_def
      handleRegister_begin_def d1_def)

theorem surface_one_action_in_flight_witness:
  "session engine_message
     [FileSelected (Some report_pdf), HashSettled (Inr d1), RegisterClicked, VerifyClicked]
     = (handleRegister_begin hash_ready, [Registering])
   \<and> loading (handleRegister_begin hash_ready)"
proof -
  let ?evs = "[FileSelected (Some report_pdf), HashSettled (Inr d1), RegisterClicked]"
  have step: "session engine_message (?evs @ [VerifyClicked])
                = dispatch engine_message (handleRegister_begin hash_ready, [Registering]) VerifyClicked"
    unfolding session_snoc registering_session ..
  from surface_one_action_in_flight [OF registering_session] step
  show ?thesis by simp
qed

subsection \<open>Requests\<close>

text \<open>
  C7. Past the guard, a register action sends exactly one request, to \<open>/register\<close>,
  whose body has the five fields \<open>docHash\<close>, \<open>filename\<close>, \<open>filesize\<close>, \<open>mimeType\<close> and
  \<open>uploader\<close>, holding the digest, the file's name, size and media type, and the fixed
  uploader; a verify action sends exactly one request, to \<open>/verify\<close>, whose body has the
  field \<open>docHash\<close> only. Neither depends on the content of the file: with any other bytes
  in the same file the requests are the same.
\<close>

theorem request_bodies_hold_digest_and_metadata_only:
  assumes "docHash s \<noteq> []" and "file s = Some f"
  shows "requests (snd (handleRegister tmsg rep s)) =
           [Post (API_URL @ ''/register'')
              [(''docHash'', JString (docHash s)),
               (''filename'', JString (file_name f)),
               (''filesize'', JNumber (file_size f)),
               (''mimeType'', JString (file_type f)),
               (''uploader'', JString ''ClientDemoUser'')]]
         \<and> requests (snd (handleVerify tmsg rep' s)) =
           [Post (API_URL @ ''/verify'') [(''docHash'', JString (docHash s))]]
         \<and> requests (snd (handleRegister tmsg rep (s\<lparr>file := Some (f\<lparr>file_bytes := bs\<rparr>)\<rparr>)))
             = requests (snd (handleRegister tmsg rep s))
         \<and> requests (snd (handleVerify tmsg rep' (s\<lparr>file := Some (f\<lparr>file_bytes := bs\<rparr>)\<rparr>)))
             = requests (snd (handleVerify tmsg rep' s))"
proof -
  have reg: "requests (snd (handleRegister tmsg rep t)) =
               [Post (API_URL @ ''/register'') (register_payload (docHash t) g)]"
    if "docHash t \<noteq> []" and "file t = Some g" for t g
    using that register_settle_effects [of tmsg rep "handleRegister_begin t"]
    by (simp add: handleRegister_ready requests_def)
  have ver: "requests (snd (handleVerify tmsg rep' t)) =
               [Post (API_URL @ ''/verify'') (verify_payload (docHash t))]"
    if "docHash t \<noteq> []" and "file t = Some g" for t g
    using that verify_settle_effects [of tmsg rep' "handleVerify_begin t"]
    by (simp add: handleVerify_ready requests_def)
  let ?t = "s\<lparr>file := Some (f\<lparr>file_bytes := bs\<rparr>)\<rparr>"
  have t: "docHash ?t \<noteq> []" "file ?t = Some (f\<lparr>file_bytes := bs\<rparr>)" "docHash ?t = docHash s"
    using assms by simp_all
  have "requests (snd (handleRegister tmsg rep ?t)) = requests (snd (handleRegister tmsg rep s))"
    using reg [OF t(1,2)] reg [OF assms] by (simp add: register_payload_def)
  moreover have "requests (snd (handleVerify tmsg rep' ?t)) = requests (snd (handleVerify tmsg rep' s))"
    using ver [OF t(1,2)] ver [OF assms] by simp
  ultimately show ?thesis
    using reg [OF assms] ver [OF assms] by (simp add: register_payload_def verify_payload_def)
qed

theorem request_bodies_hold_digest_and_metadata_only_witness:
  "requests (snd (handleRegister engine_message (Inr (Some receipt_body)) hash_ready)) =
     [Post ''http://localhost:5000/api/documents/register''
        [(''docHash'', JString d1),
         (''filename'', JString ''report.pdf''),
         (''filesize'', JNumber 1024),
         (''mimeType'', JString ''application/pdf''),
         (''uploader'', JString ''ClientDemoUser'')]]
   \<and> requests (snd (handleVerify engine_message (Inr (Some verified_ok_body)) hash_ready)) =
     [Post ''http://localhost:5000/api/documents/verify'' [(''docHash'', JString d1)]]"
proof -
  have ready: "docHash hash_ready \<noteq> []" "file hash_ready = Some report_pdf"
    using hash_ready_ready by simp_all
  have vals: "docHash hash_ready = d1" "file_name report_pdf = ''report.pdf''"
    "file_size report_pdf = 1024" "file_type report_pdf = ''application/pdf''"
    by (simp_all add: hash_ready_def report_pdf_def)
  from request_bodies_hold_digest_and_metadata_only
    [OF ready, where tmsg = engine_message and rep = "Inr (Some receipt_body)"
      and rep' = "Inr (Some verified_ok_body)" and bs = "[]"]
  show ?thesis by (simp add: vals API_URL_def)
qed

subsection \<open>Failing actions\<close>

text \<open>
  C5. When a register or verify action fails (the request is rejected, the body of the
  answer is \<open>null\<close>, or the body of the register answer has no transaction hash to show),
  the status line reports the failure and the digest and the file are those the action
  started with.
\<close>

theorem failed_action_keeps_digest_and_file:
  assumes "docHash s \<noteq> []" and "file s = Some f"
  shows "(register_try tmsg rep (handleRegister_begin s) = Inl e \<longrightarrow>
            status (fst (handleRegister tmsg rep s)) = ''Registration failed.''
            \<and> docHash (fst (handleRegister tmsg rep s)) = docHash s
            \<and> file (fst (handleRegister tmsg rep s)) = file s)
         \<and> (verify_try tmsg rep (handleVerify_begin s) = Inl e \<longrightarrow>
            status (fst (handleVerify tmsg rep s)) = ''Verification failed.''
            \<and> docHash (fst (handleVerify tmsg rep s)) = docHash s
            \<and> file (fst (handleVerify tmsg rep s)) = file s)"
proof -
  have reg: "docHash (fst (handleRegister tmsg rep s)) = docHash s
             \<and> file (fst (handleRegister tmsg rep s)) = file s"
    using assms register_settle_frame [of tmsg rep "handleRegister_begin s"]
    by (simp add: handleRegister_ready handleRegister_begin_def)
  have ver: "docHash (fst (handleVerify tmsg rep s)) = docHash s
             \<and> file (fst (handleVerify tmsg rep s)) = file s"
    using assms verify_settle_frame [of tmsg rep "handleVerify_begin s"]
    by (simp add: handleVerify_ready handleVerify_begin_def)
  have reg_status: "status (fst (handleRegister tmsg rep s)) = ''Registration failed.''"
    if "register_try tmsg rep (handleRegister_begin s) = Inl e"
    using assms that by (simp add: handleRegister_ready handleRegister_settle_def register_catch_def)
  have ver_status: "status (fst (handleVerify tmsg rep s)) = ''Verification failed.''"
    if "verify_try tmsg rep (handleVerify_begin s) = Inl e"
    using assms that by (simp add: handleVerify_ready handleVerify_settle_def verify_catch_def)
  from reg ver reg_status ver_status show ?thesis by blast
qed

theorem failed_action_keeps_digest_and_file_witness:
  "status (fst (handleRegister engine_message (Inl network_error) hash_ready)) = ''Registration failed.''
   \<and> docHash (fst (handleRegister engine_message (Inl network_error) hash_ready)) = d1
   \<and> file (fst (handleRegister engine_message (Inl network_error) hash_ready)) = Some report_pdf
   \<and> status (fst (handleVerify engine_message (Inl network_error) hash_ready)) = ''Verification failed.''
   \<and> docHash (fst (handleVerify engine_message (Inl network_error) hash_ready)) = d1
   \<and> file (fst (handleVerify engine_message (Inl network_error) hash_ready)) = Some report_pdf"
proof -
  have ready: "docHash hash_ready \<noteq> []" "file hash_ready = Some report_pdf"
    using hash_ready_ready by simp_all
  have thrown: "register_try engine_message (Inl network_error) (handleRegister_begin hash_ready)
                  = Inl network_error"
    "verify_try engine_message (Inl network_error) (handleVerify_begin hash_ready) = Inl network_error"
    by (simp_all add: register_try_def verify_try_def)
  have same: "docHash hash_ready = d1" "file hash_ready = Some report_pdf"
    by (simp_all add: hash_ready_def)
  from failed_action_keeps_digest_and_file
    [OF ready, of engine_message "Inl network_error" network_error] thrown same
  show ?thesis by simp
qed

text \<open>
  C8. The specification has the backend's message surfaced whenever the error response
  contains one. The fallback of lines 89 and 127 is \<open>||\<close>, which also falls through on
  an empty string: for a 500 answer whose body is \<open>{message: ""}\<close> the error message shown
  ends with the transport error's message, not with the backend's.
\<close>

theorem failed_action_message_empty_backend_message:
  "backend_message empty_message_error = Some []
   \<and> errorMessage (fst (handleRegister engine_message (Inl empty_message_error) hash_ready))
       = Some ''Registration Failed: Request failed with status code 500''
   \<and> errorMessage (fst (handleVerify engine_message (Inl empty_message_error) hash_ready))
       = Some ''Verification Failed: Request failed with status code 500''"
  by (simp add: register_defs verify_defs failure_msg_def js_or_def backend_message_def
      interpolate_def empty_message_error_def hash_ready_def d1_def)

text \<open>
  C8, as amended. After a failing register or verify action the error message is
  \<open>Registration Failed: \<close> or \<open>Verification Failed: \<close> followed by the backend's message
  when the error response contains one that is not empty, and otherwise by the error's
  own message (rendered \<open>undefined\<close> when the error has none).
\<close>

theorem failed_action_message:
  assumes "docHash s \<noteq> []" and "file s = Some f"
  shows "(register_try tmsg rep (handleRegister_begin s) = Inl error \<longrightarrow>
            errorMessage (fst (handleRegister tmsg rep s)) =
              Some (''Registration Failed: '' @
                (case backend_message error of
                   Some m \<Rightarrow> if m = [] then interpolate (err_message error) else m
                 | None \<Rightarrow> interpolate (err_message error))))
         \<and> (verify_try tmsg rep (handleVerify_begin s) = Inl error \<longrightarrow>
            errorMessage (fst (handleVerify tmsg rep s)) =
              Some (''Verification Failed: '' @
                (case backend_message error of
                   Some m \<Rightarrow> if m = [] then interpolate (err_message error) else m
                 | None \<Rightarrow> interpolate (err_message error))))"
proof -
  have msg: "interpolate (failure_msg error) =
               (case backend_message error of
                  Some m \<Rightarrow> if m = [] then interpolate (err_message error) else m
                | None \<Rightarrow> interpolate (err_message error))"
    by (simp add: failure_msg_def js_or_def interpolate_def split: option.splits)
  have reg: "errorMessage (fst (handleRegister tmsg rep s)) =
               Some (''Registration Failed: '' @ interpolate (failure_msg error))"
    if "register_try tmsg rep (handleRegister_begin s) = Inl error"
    using assms that by (simp add: handleRegister_ready handleRegister_settle_def register_catch_def)
  have ver: "errorMessage (fst (handleVerify tmsg rep s)) =
               Some (''Verification Failed: '' @ interpolate (failure_msg error))"
    if "verify_try tmsg rep (handleVerify_begin s) = Inl error"
    using assms that by (simp add: handleVerify_ready handleVerify_settle_def verify_catch_def)
  from reg ver show ?thesis unfolding msg by blast
qed

theorem failed_action_message_witness:
  "errorMessage (fst (handleRegister engine_message (Inl duplicate_error) hash_ready))
     = Some ''Registration Failed: Document already registered''
   \<and> errorMessage (fst (handleVerify engine_message (Inl duplicate_error) hash_ready))
     = Some ''Verification Failed: Document already registered''"
proof -
  have ready: "docHash hash_ready \<noteq> []" "file hash_ready = Some report_pdf"
    using hash_ready_ready by simp_all
  have thrown: "register_try engine_message (Inl duplicate_error) (handleRegister_begin hash_ready)
                  = Inl duplicate_error"
    "verify_try engine_message (Inl duplicate_error) (handleVerify_begin hash_ready) = Inl duplicate_error"
    by (simp_all add: register_try_def verify_try_def)
  have backend: "backend_message duplicate_error = Some ''Document already registered''"
    by (simp add: backend_message_def duplicate_error_def)
  from failed_action_message [OF ready, of engine_message "Inl duplicate_error" duplicate_error]
    thrown backend
  show ?thesis by simp
qed

text \<open>
  C10. Hashing a selected file ends with the loading flag false, whether the hash is
  computed, the read fails or the digest primitive fails; so do a register and a verify
  action past the guard, for every reply. The part of each handler after its \<open>await\<close>
  ends with the flag false from any state.
\<close>

theorem actions_end_not_loading:
  assumes "docHash s \<noteq> []" and "file s = Some f"
  shows "\<not> loading (handleFileChange readError digest (Some g) t)
         \<and> \<not> loading (fst (handleRegister tmsg rep s))
         \<and> \<not> loading (fst (handleVerify tmsg rep' s))
         \<and> \<not> loading (handleFileChange_settle outcome t)
         \<and> \<not> loading (fst (handleRegister_settle tmsg rep t))
         \<and> \<not> loading (fst (handleVerify_settle tmsg rep' t))"
proof -
  have "\<not> loading (handleFileChange readError digest (Some g) t)"
    by (simp add: handleFileChange_def hash_settle_not_loading)
  moreover have "\<not> loading (fst (handleRegister tmsg rep s))"
    using assms register_settle_frame [of tmsg rep "handleRegister_begin s"]
    by (simp add: handleRegister_ready)
  moreover have "\<not> loading (fst (handleVerify tmsg rep' s))"
    using assms verify_settle_frame [of tmsg rep' "handleVerify_begin s"]
    by (simp add: handleVerify_ready)
  ultimately show ?thesis
    using hash_settle_not_loading register_settle_frame verify_settle_frame by blast
qed

theorem actions_end_not_loading_witness:
  "\<not> loading (handleFileChange (\<lambda>f. Some read_failure) (\<lambda>bs. Inr report_digest) (Some notes_txt) hash_ready)
   \<and> \<not> loading (fst (handleRegister engine_message (Inl network_error) hash_ready))
   \<and> \<not> loading (fst (handleVerify engine_message (Inr (Some verified_ok_body)) hash_ready))"
proof -
  have ready: "docHash hash_ready \<noteq> []" "file hash_ready = Some report_pdf"
    using hash_ready_ready by simp_all
  from actions_end_not_loading [OF ready, where readError = "\<lambda>f. Some read_failure"
      and digest = "\<lambda>bs. Inr report_digest" and g = notes_txt and t = hash_ready
      and tmsg = engine_message and rep = "Inl network_error" and rep' = "Inr (Some verified_ok_body)"]
  show ?thesis by simp
qed

end
